theory Spec2Isabelle
  imports Complex_Main "HOL-Library.AList"
begin

section \<open>JavaScript values, objects and the heap\<close>

text \<open>
  The class \<open>GoogleVertexAI\<close> of \<open>llms/googlevertexai/web.ts\<close> only moves values
  around: it reads one property of its argument, copies own properties with the object
  spread, assigns two properties of \<open>this\<close> and calls three constructors. The values
  are therefore modelled structurally. A plain object is the list of its own enumerable
  properties in insertion order; an instance of a class lives in the heap and is known by
  its address, so that two references to one object can be told from two equal objects.
  An object has each of its properties once (the names in the list are distinct); the
  theorems that depend on it say so. Plain objects are values: the constructor never
  writes to \<open>fields\<close>, and the collaborators are taken not to either. The object
  that the caller passes as \<open>fields\<close> may be an instance of a class of the caller's:
  it is modelled with the properties that a read finds beyond its own enumerable ones.
  Numbers are carried around and never computed with.
\<close>

datatype jsval =
    JUndefined
  | JNull
  | JBool bool
  | JNum rat
  | JStr string
  | JObj "(string \<times> jsval) list"
  | JRef nat

type_synonym props = "(string \<times> jsval) list"

text \<open>
  \<open>new C(a1, ..., an)\<close> for a class whose source is not part of the development
  yields an instance that records the class and the arguments it was built from.
\<close>

datatype heapobj = Instance (class_name: string) (ctor_args: "jsval list")

type_synonym heap = "heapobj list"

text \<open>\<open>o.k\<close> on the own properties of an object: the value, or \<open>undefined\<close>.\<close>

definition get_prop :: "props \<Rightarrow> string \<Rightarrow> jsval" where
  "get_prop ps k = (case map_of ps k of None \<Rightarrow> JUndefined | Some v \<Rightarrow> v)"

text \<open>
  \<open>o.k = v\<close> on a data property: an existing property keeps its place, a new one
  goes last. The property is an own enumerable one from then on.
\<close>

definition set_prop :: "props \<Rightarrow> string \<Rightarrow> jsval \<Rightarrow> props" where
  "set_prop ps k v = AList.update k v ps"

text \<open>
  An object that a caller passes in. Its \<open>own\<close> properties are the own enumerable ones
  in insertion order, the only ones that an object spread copies. Its \<open>inherited\<close>
  properties are those that a read finds when there is no such own property: the
  properties along the prototype chain, nearest first (and own properties that are not
  enumerable).
\<close>

record js_object =
  own :: props
  inherited :: props

text \<open>\<open>ob.k\<close>: the own property, else the inherited one, else \<open>undefined\<close>.\<close>

definition read_prop :: "js_object \<Rightarrow> string \<Rightarrow> jsval" where
  "read_prop ob k =
     (case map_of (own ob) k of Some v \<Rightarrow> v | None \<Rightarrow> get_prop (inherited ob) k)"

text \<open>
  \<open>fields?.k\<close> for the optional parameter \<open>fields?: GoogleVertexAITextInput\<close>:
  \<open>None\<close> is the omitted (or \<open>undefined\<close>) argument, for which the optional chain
  gives \<open>undefined\<close> instead of raising.
\<close>

definition opt_chain :: "js_object option \<Rightarrow> string \<Rightarrow> jsval" where
  "opt_chain flds k = (case flds of None \<Rightarrow> JUndefined | Some ob \<Rightarrow> read_prop ob k)"

text \<open>
  One spread element \<open>...src\<close> inside an object literal whose properties so far are
  \<open>acc\<close>: the own properties of \<open>src\<close> are copied in order, a later one
  overwriting an earlier one of the same name. Spreading \<open>undefined\<close> copies nothing.
\<close>

definition spread :: "props \<Rightarrow> props \<Rightarrow> props" where
  "spread acc src = fold (\<lambda>(k, v). AList.update k v) src acc"

definition spread_opt :: "props \<Rightarrow> js_object option \<Rightarrow> props" where
  "spread_opt acc src = (case src of None \<Rightarrow> acc | Some ob \<Rightarrow> spread acc (own ob))"

section \<open>The collaborators\<close>

text \<open>
  \<open>web.ts\<close> imports \<open>BaseGoogleVertexAI\<close> (\<open>./common.js\<close>), \<open>WebGoogleAuth\<close>
  (\<open>../../util/googlevertexai-webauth.js\<close>) and \<open>GoogleVertexAILLMConnection\<close>
  (\<open>../../util/googlevertexai-connection.js\<close>). None of the three is part of the
  sources at hand, so they are parameters:
  \<^item> \<open>super_ctor\<close> is the constructor of \<open>BaseGoogleVertexAI\<close>. Run on \<open>fields\<close>
    in a heap it either throws, or leaves the own properties of \<open>this\<close> and a heap.
  \<^item> \<open>ctor_throws C args\<close> is the exception that the constructor of class \<open>C\<close> throws
    on the arguments \<open>args\<close>, if it throws.
\<close>

record collaborators =
  super_ctor :: "js_object option \<Rightarrow> heap \<Rightarrow> jsval + (props \<times> heap)"
  ctor_throws :: "string \<Rightarrow> jsval list \<Rightarrow> jsval option"

text \<open>\<open>new C(args)\<close>: the exception propagates, otherwise a fresh address is returned.\<close>

definition new_instance ::
  "collaborators \<Rightarrow> string \<Rightarrow> jsval list \<Rightarrow> heap \<Rightarrow> jsval + (jsval \<times> heap)" where
  "new_instance D C args h =
     (case ctor_throws D C args of
        Some e \<Rightarrow> Inl e
      | None \<Rightarrow> Inr (JRef (length h), h @ [Instance C args]))"

section \<open>The class GoogleVertexAI\<close>

text \<open>\<open>static lc_name() { return "VertexAI"; }\<close>\<close>

definition lc_name :: string where
  "lc_name = ''VertexAI''"

text \<open>
  \<open>get lc_secrets(): { [key: string]: string }\<close>, a getter: it receives \<open>this\<close> and
  returns a fresh object literal.
\<close>

definition lc_secrets :: "props \<Rightarrow> (string \<times> string) list" where
  "lc_secrets this = [(''authOptions.credentials'', ''GOOGLE_VERTEX_AI_WEB_CREDENTIALS'')]"

text \<open>
  The constructor, statement by statement:
  \<^verbatim>\<open>
  constructor(fields?: GoogleVertexAITextInput) {
    super(fields);
    const client = new WebGoogleAuth(fields?.authOptions);
    this.connection = new GoogleVertexAILLMConnection(
      { ...fields, ...this }, this.caller, client, false);
    this.streamedConnection = new GoogleVertexAILLMConnection(
      { ...fields, ...this }, this.caller, client, true);
  }
  \<close>
  The arguments of a \<open>new\<close> are evaluated before the assignment that stores its result,
  so the first object literal reads \<open>this\<close> as \<open>super\<close> left it and the second one
  reads it after \<open>this.connection\<close> has been assigned. The result is the final \<open>this\<close>
  and the heap, or the exception of the first collaborator that threw.
\<close>

definition GoogleVertexAI_constructor ::
  "collaborators \<Rightarrow> js_object option \<Rightarrow> heap \<Rightarrow> jsval + (props \<times> heap)" where
  "GoogleVertexAI_constructor D flds h =
     (case super_ctor D flds h of
        Inl e \<Rightarrow> Inl e
      | Inr (this0, h1) \<Rightarrow>
     (case new_instance D ''WebGoogleAuth'' [opt_chain flds ''authOptions''] h1 of
        Inl e \<Rightarrow> Inl e
      | Inr (client, h2) \<Rightarrow>
     (case new_instance D ''GoogleVertexAILLMConnection''
             [JObj (spread (spread_opt [] flds) this0), get_prop this0 ''caller'',
              client, JBool False] h2 of
        Inl e \<Rightarrow> Inl e
      | Inr (conn, h3) \<Rightarrow>
     (let this1 = set_prop this0 ''connection'' conn in
      case new_instance D ''GoogleVertexAILLMConnection''
             [JObj (spread (spread_opt [] flds) this1), get_prop this1 ''caller'',
              client, JBool True] h3 of
        Inl e \<Rightarrow> Inl e
      | Inr (sconn, h4) \<Rightarrow>
          Inr (set_prop this1 ''streamedConnection'' sconn, h4)))))"

text \<open>
  A stand-in for the absent base class, used to run the constructor on concrete inputs:
  it allocates one caller object, keeps the \<open>model\<close> of \<open>fields\<close> when there is one
  and falls back to a default otherwise. With it, no constructor throws.
\<close>

definition sample_super :: "js_object option \<Rightarrow> heap \<Rightarrow> jsval + (props \<times> heap)" where
  "sample_super flds h =
     Inr ([(''model'', (case opt_chain flds ''model'' of
                          JUndefined \<Rightarrow> JStr ''default-model'' | v \<Rightarrow> v)),
           (''caller'', JRef (length h))],
          h @ [Instance ''AsyncCaller'' []])"

definition sample_collaborators :: collaborators where
  "sample_collaborators =
     \<lparr> super_ctor = sample_super, ctor_throws = (\<lambda>C args. None) \<rparr>"

text \<open>
  The objects a run of the constructor added to the heap \<open>h1\<close> that \<open>super\<close> left.
\<close>

definition created :: "heap \<Rightarrow> heap \<Rightarrow> heap" where
  "created h1 h' = drop (length h1) h'"

text \<open>
  Two instances were built from the same arguments up to the last one.
\<close>

definition same_but_last_arg :: "heapobj \<Rightarrow> heapobj \<Rightarrow> bool" where
  "same_but_last_arg a b \<longleftrightarrow>
     class_name a = class_name b \<and> butlast (ctor_args a) = butlast (ctor_args b)"

text \<open>The instance that a value refers to, when it is a reference into the heap.\<close>

definition deref :: "heap \<Rightarrow> jsval \<Rightarrow> heapobj option" where
  "deref h v = (case v of JRef a \<Rightarrow> (if a < length h then Some (h ! a) else None)
                        | _ \<Rightarrow> None)"

text \<open>The \<open>fields\<close> used in the concrete runs: a model name and credentials.\<close>

definition sample_fields :: js_object where
  "sample_fields =
     \<lparr> own = [(''model'', JStr ''text-bison''),
              (''authOptions'', JObj [(''credentials'', JStr ''service-account'')])],
       inherited = [] \<rparr>"






text \<open>
  The comment of the class names the two places that the credentials come from: the
  environment variable \<open>GOOGLE_VERTEX_AI_WEB_CREDENTIALS\<close> and
  \<open>authOptions.credentials\<close>. The collaborators below stand for an environment without
  the variable: a \<open>WebGoogleAuth\<close> that is given no options has no credentials and
  throws.
\<close>

definition no_credentials_throws :: "string \<Rightarrow> jsval list \<Rightarrow> jsval option" where
  "no_credentials_throws C args =
     (if C = ''WebGoogleAuth'' \<and> args = [JUndefined]
      then Some (JStr ''Credentials not found'')
      else None)"

definition no_credentials_collaborators :: collaborators where
  "no_credentials_collaborators =
     \<lparr> super_ctor = sample_super, ctor_throws = no_credentials_throws \<rparr>"

section \<open>The operation behind the connections\<close>

text \<open>
  Modelled from the spec: the errors of the Remote Model Connection (section 7,
  "Error kinds"). The connection class itself,
  \<open>util/googlevertexai-connection.ts\<close>, is not among the sources.
\<close>

datatype send_error =
    AuthenticationError
  | TransportError
  | ResponseParseError
  | UnsupportedModelError

text \<open>
  Modelled from the spec: the credentials of section 3, "opaque token or service-account
  material" owned by the auth provider; the connection neither parses nor validates them.
\<close>

type_synonym AuthCredentials = string

text \<open>
  Modelled from the spec: the ModelRequest of section 3, with its provider name, model
  identifier, messages (role and content) and the generation parameters temperature,
  max tokens and stop sequences; a parameter that the request leaves out is \<open>None\<close>.
\<close>

record ModelRequest =
  provider :: string
  model :: string
  messages :: "(string \<times> string) list"
  temperature :: "rat option"
  max_tokens :: "nat option"
  stop_sequences :: "string list option"

text \<open>
  Modelled from the spec: the ModelResponse of section 3, "generated text or structured
  tool-call data, plus usage metadata".
\<close>

datatype response_content = GeneratedText string | ToolCall string

record ModelResponse =
  content :: response_content
  usage_tokens :: int

text \<open>
  Modelled from the spec: the HTTPS request of section 6, sent to the endpoint of the
  provider with the credentials of the auth provider; its body holds the model name, the
  messages and the generation parameters.
\<close>

record http_request =
  url :: string
  credentials :: AuthCredentials
  body_model :: string
  body_messages :: "(string \<times> string) list"
  body_temperature :: "rat option"
  body_max_tokens :: "nat option"
  body_stop_sequences :: "string list option"

text \<open>
  Modelled from the spec: what the transport collaborator answers to one call. The call
  fails, or times out, or the endpoint replies with an HTTP status and a body
  (sections 4.1 and 7).
\<close>

datatype transport_outcome = NetworkFailure | Timeout | HttpReply nat string

text \<open>
  Modelled from the spec: the connection of section 4.1, "constructed with a provider
  endpoint, an auth strategy, and default generation parameters". The auth provider and
  the transport are collaborators (section 2), and the spec does not spell out the
  expected schema of a response, so the three are fields:
  \<^item> \<open>getToken\<close> is what the auth provider returns, \<open>None\<close> when the acquisition
    of the credentials fails;
  \<^item> \<open>transport\<close> is the deterministic endpoint behind the HTTP transport;
  \<^item> \<open>expected_schema\<close> reads a body, \<open>None\<close> when the body does not match.
\<close>

record connection =
  endpoint :: string
  supported_models :: "string list"
  default_temperature :: "rat option"
  default_max_tokens :: "nat option"
  default_stop_sequences :: "string list option"
  getToken :: "AuthCredentials option"
  transport :: "http_request \<Rightarrow> transport_outcome"
  expected_schema :: "string \<Rightarrow> ModelResponse option"

text \<open>
  Modelled from the spec: a step that fails ends the operation with its error; a step
  that succeeds hands its value to the next one ("all errors surface to the caller
  unmodified; no local recovery or silent retry", section 7).
\<close>

definition and_then :: "send_error + 'a \<Rightarrow> ('a \<Rightarrow> send_error + 'b) \<Rightarrow> send_error + 'b" where
  "and_then m f = (case m of Inl e \<Rightarrow> Inl e | Inr x \<Rightarrow> f x)"

text \<open>
  Modelled from the spec: "request must name a supported model" (section 4.1), with
  \<open>UnsupportedModelError\<close> for "a model the connection does not recognize" (section 7).
\<close>

definition check_model :: "connection \<Rightarrow> ModelRequest \<Rightarrow> send_error + unit" where
  "check_model C req =
     (if model req \<in> set (supported_models C) then Inr () else Inl UnsupportedModelError)"

text \<open>
  Modelled from the spec: "fails with AuthenticationError when credential acquisition
  fails" (section 4.1).
\<close>

definition acquire :: "connection \<Rightarrow> send_error + AuthCredentials" where
  "acquire C = (case getToken C of None \<Rightarrow> Inl AuthenticationError | Some cred \<Rightarrow> Inr cred)"

text \<open>
  Modelled from the spec: step (b) of section 2, "builds a request payload from a typed
  input": the model name and the generation parameters of the request, the defaults of
  the connection standing in for those that the request leaves out.
\<close>

definition build_request :: "connection \<Rightarrow> AuthCredentials \<Rightarrow> ModelRequest \<Rightarrow> http_request" where
  "build_request C cred req =
     \<lparr> url = endpoint C,
       credentials = cred,
       body_model = model req,
       body_messages = messages req,
       body_temperature =
         (case temperature req of None \<Rightarrow> default_temperature C | Some t \<Rightarrow> Some t),
       body_max_tokens =
         (case max_tokens req of None \<Rightarrow> default_max_tokens C | Some n \<Rightarrow> Some n),
       body_stop_sequences =
         (case stop_sequences req of None \<Rightarrow> default_stop_sequences C | Some ss \<Rightarrow> Some ss) \<rparr>"

text \<open>
  Modelled from the spec: step (c) of section 2, the HTTP call. "Fails with TransportError
  when the network call fails or times out" (section 4.1); a reply with the status 401
  is an \<open>AuthenticationError\<close> (section 8), one with any other status outside 200-299
  a \<open>TransportError\<close> (section 7, "non-2xx HTTP status").
\<close>

definition call_endpoint :: "connection \<Rightarrow> http_request \<Rightarrow> send_error + string" where
  "call_endpoint C rq =
     (case transport C rq of
        NetworkFailure \<Rightarrow> Inl TransportError
      | Timeout \<Rightarrow> Inl TransportError
      | HttpReply status body \<Rightarrow>
          (if status = 401 then Inl AuthenticationError
           else if status < 200 \<or> 300 \<le> status then Inl TransportError
           else Inr body))"

text \<open>
  Modelled from the spec: step (d) of section 2, the parse. "Fails with
  ResponseParseError when the endpoint's payload does not match the expected schema"
  (section 4.1).
\<close>

definition parse_response :: "connection \<Rightarrow> string \<Rightarrow> send_error + ModelResponse" where
  "parse_response C body =
     (case expected_schema C body of None \<Rightarrow> Inl ResponseParseError | Some r \<Rightarrow> Inr r)"

text \<open>
  Modelled from the spec: \<open>send(request: ModelRequest) -> ModelResponse\<close> of section
  4.1, the steps of section 2 in their order.
\<close>

definition send :: "connection \<Rightarrow> ModelRequest \<Rightarrow> send_error + ModelResponse" where
  "send C req =
     and_then (check_model C req) (\<lambda>_.
     and_then (acquire C) (\<lambda>cred.
     and_then (call_endpoint C (build_request C cred req)) (\<lambda>body.
     parse_response C body)))"

text \<open>
  A mock connection for the concrete runs. The endpoint answers the model
  \<open>down-model\<close> with a network failure, \<open>slow-model\<close> with a timeout,
  \<open>odd-model\<close> with a body that the schema rejects, and any other model with a body
  that the schema accepts.
\<close>

definition mock_transport :: "http_request \<Rightarrow> transport_outcome" where
  "mock_transport rq =
     (if body_model rq = ''down-model'' then NetworkFailure
      else if body_model rq = ''slow-model'' then Timeout
      else if body_model rq = ''odd-model'' then HttpReply 200 ''<html>''
      else HttpReply 200 ''hello/1'')"

definition mock_schema :: "string \<Rightarrow> ModelResponse option" where
  "mock_schema body =
     (if body = ''hello/1''
      then Some \<lparr> content = GeneratedText ''hello'', usage_tokens = 1 \<rparr>
      else None)"

definition mock_connection :: "AuthCredentials option \<Rightarrow> connection" where
  "mock_connection tok =
     \<lparr> endpoint = ''https://endpoint.example/predict'',
       supported_models = [''test-model'', ''down-model'', ''slow-model'', ''odd-model''],
       default_temperature = Some 0,
       default_max_tokens = Some 1024,
       default_stop_sequences = None,
       getToken = tok,
       transport = mock_transport,
       expected_schema = mock_schema \<rparr>"

definition mock_request :: "string \<Rightarrow> ModelRequest" where
  "mock_request m =
     \<lparr> provider = ''test-provider'',
       model = m,
       messages = [(''user'', ''hi'')],
       temperature = Some 0,
       max_tokens = None,
       stop_sequences = None \<rparr>"

section \<open>Properties of the object spread\<close>

lemma spread_Nil [simp]: "spread acc [] = acc"
  by (simp add: spread_def)

lemma spread_Cons [simp]: "spread acc ((k, v) # ps) = spread (AList.update k v acc) ps"
  by (simp add: spread_def)

lemma update_update_commute:
  "k \<noteq> k' \<Longrightarrow> k \<in> fst ` set acc \<Longrightarrow>
   AList.update k v (AList.update k' v' acc) = AList.update k' v' (AList.update k v acc)"
  by (induction acc) auto

lemma update_spread_commute:
  "k \<in> fst ` set acc \<Longrightarrow> k \<notin> fst ` set ps \<Longrightarrow>
   AList.update k v (spread acc ps) = spread (AList.update k v acc) ps"
proof (induction ps arbitrary: acc)
  case Nil
  then show ?case by simp
next
  case (Cons p ps)
  obtain k' v' where p: "p = (k', v')" by (cases p)
  from Cons.prems p have ne: "k \<noteq> k'" and notin: "k \<notin> fst ` set ps" by auto
  from Cons.prems(1) have "k \<in> fst ` set (AList.update k' v' acc)"
    by (simp add: AList.dom_update)
  from Cons.IH [OF this notin]
  have "AList.update k v (spread (AList.update k' v' acc) ps)
          = spread (AList.update k v (AList.update k' v' acc)) ps" .
  also have "AList.update k v (AList.update k' v' acc)
          = AList.update k' v' (AList.update k v acc)"
    using ne Cons.prems(1) by (rule update_update_commute)
  finally show ?case by (simp add: p)
qed

text \<open>
  Assigning a property of the source before spreading it is the same as assigning that
  property of the result.
\<close>

lemma spread_set_prop:
  "distinct (map fst ps) \<Longrightarrow>
   spread acc (set_prop ps k v) = AList.update k v (spread acc ps)"
proof (induction ps arbitrary: acc)
  case Nil
  then show ?case by (simp add: set_prop_def)
next
  case (Cons p ps)
  obtain k' v' where p: "p = (k', v')" by (cases p)
  show ?case
  proof (cases "k' = k")
    case True
    from Cons.prems p True have notin: "k \<notin> fst ` set ps" by auto
    have "k \<in> fst ` set (AList.update k v' acc)"
      by (simp add: AList.dom_update)
    from update_spread_commute [OF this notin, of v]
    show ?thesis using p True by (simp add: set_prop_def)
  next
    case False
    from Cons.prems have "distinct (map fst ps)" by simp
    from Cons.IH [OF this, of "AList.update k' v' acc"]
    show ?thesis using p False by (simp add: set_prop_def)
  qed
qed

lemma spread_append:
  "distinct (map fst ps) \<Longrightarrow> fst ` set acc \<inter> fst ` set ps = {} \<Longrightarrow>
   spread acc ps = acc @ ps"
proof (induction ps arbitrary: acc)
  case Nil
  then show ?case by simp
next
  case (Cons p ps)
  obtain k v where p: "p = (k, v)" by (cases p)
  from Cons.prems p have knew: "k \<notin> fst ` set acc" by auto
  then have upd: "AList.update k v acc = acc @ [(k, v)]"
    by (induction acc) auto
  from Cons.prems p have d: "distinct (map fst ps)"
    and disj: "fst ` set (acc @ [(k, v)]) \<inter> fst ` set ps = {}" by auto
  from Cons.IH [OF d disj] show ?case using p upd by simp
qed

text \<open>The spread of an object into the empty literal is a copy of it.\<close>

lemma spread_empty_copy: "distinct (map fst ps) \<Longrightarrow> spread [] ps = ps"
  using spread_append [of ps "[]"] by simp

lemma get_set_prop_same [simp]: "get_prop (set_prop ps k v) k = v"
  by (simp add: get_prop_def set_prop_def AList.update_conv')

lemma get_set_prop_other [simp]: "k' \<noteq> k \<Longrightarrow> get_prop (set_prop ps k v) k' = get_prop ps k'"
  by (simp add: get_prop_def set_prop_def AList.update_conv')

section \<open>What a run of the constructor leaves behind\<close>

text \<open>
  A run that returns went through \<open>super\<close> and three \<open>new\<close>, in this order, and the
  heap grew by exactly the three instances; the two properties of \<open>this\<close> hold the
  addresses of the second and the third.
\<close>

lemma constructor_returns:
  assumes "GoogleVertexAI_constructor D flds h = Inr (this', h')"
    and "super_ctor D flds h = Inr (this0, h1)"
  shows "this' =
           set_prop (set_prop this0 ''connection'' (JRef (length h1 + 1)))
             ''streamedConnection'' (JRef (length h1 + 2))"
    and "h' = h1 @
           [Instance ''WebGoogleAuth'' [opt_chain flds ''authOptions''],
            Instance ''GoogleVertexAILLMConnection''
              [JObj (spread (spread_opt [] flds) this0), get_prop this0 ''caller'',
               JRef (length h1), JBool False],
            Instance ''GoogleVertexAILLMConnection''
              [JObj (spread (spread_opt [] flds)
                       (set_prop this0 ''connection'' (JRef (length h1 + 1)))),
               get_prop this0 ''caller'', JRef (length h1), JBool True]]"
  using assms
  by (auto simp: GoogleVertexAI_constructor_def new_instance_def Let_def
           split: sum.splits option.splits)

text \<open>
  The constructor has no failure of its own: when it throws, \<open>super\<close> or one of the
  three \<open>new\<close> threw that exception.
\<close>

lemma constructor_throws_only_with_collaborators:
  assumes "GoogleVertexAI_constructor D flds h = Inl e"
  shows "super_ctor D flds h = Inl e \<or> (\<exists>C args. ctor_throws D C args = Some e)"
  using assms
  by (auto simp: GoogleVertexAI_constructor_def new_instance_def Let_def
           split: sum.splits option.splits) blast+

lemma sample_run_None:
  "GoogleVertexAI_constructor sample_collaborators None [] =
     Inr ([(''model'', JStr ''default-model''), (''caller'', JRef 0),
           (''connection'', JRef 2), (''streamedConnection'', JRef 3)],
          [Instance ''AsyncCaller'' [],
           Instance ''WebGoogleAuth'' [JUndefined],
           Instance ''GoogleVertexAILLMConnection''
             [JObj [(''model'', JStr ''default-model''), (''caller'', JRef 0)],
              JRef 0, JRef 1, JBool False],
           Instance ''GoogleVertexAILLMConnection''
             [JObj [(''model'', JStr ''default-model''), (''caller'', JRef 0),
                    (''connection'', JRef 2)],
              JRef 0, JRef 1, JBool True]])"
  by (simp add: GoogleVertexAI_constructor_def sample_collaborators_def sample_super_def
        new_instance_def opt_chain_def get_prop_def set_prop_def spread_opt_def Let_def)

lemma sample_run_fields:
  "GoogleVertexAI_constructor sample_collaborators (Some sample_fields) [] =
     Inr ([(''model'', JStr ''text-bison''), (''caller'', JRef 0),
           (''connection'', JRef 2), (''streamedConnection'', JRef 3)],
          [Instance ''AsyncCaller'' [],
           Instance ''WebGoogleAuth'' [JObj [(''credentials'', JStr ''service-account'')]],
           Instance ''GoogleVertexAILLMConnection''
             [JObj [(''model'', JStr ''text-bison''),
                    (''authOptions'', JObj [(''credentials'', JStr ''service-account'')]),
                    (''caller'', JRef 0)],
              JRef 0, JRef 1, JBool False],
           Instance ''GoogleVertexAILLMConnection''
             [JObj [(''model'', JStr ''text-bison''),
                    (''authOptions'', JObj [(''credentials'', JStr ''service-account'')]),
                    (''caller'', JRef 0), (''connection'', JRef 2)],
              JRef 0, JRef 1, JBool True]])"
  by (simp add: GoogleVertexAI_constructor_def sample_collaborators_def sample_super_def
        sample_fields_def new_instance_def opt_chain_def read_prop_def get_prop_def
        set_prop_def spread_opt_def Let_def)

lemma sample_super_None:
  "super_ctor sample_collaborators None [] =
     Inr ([(''model'', JStr ''default-model''), (''caller'', JRef 0)],
          [Instance ''AsyncCaller'' []])"
  by (simp add: sample_collaborators_def sample_super_def opt_chain_def)

lemma sample_super_fields:
  "super_ctor sample_collaborators (Some sample_fields) [] =
     Inr ([(''model'', JStr ''text-bison''), (''caller'', JRef 0)],
          [Instance ''AsyncCaller'' []])"
  by (simp add: sample_collaborators_def sample_super_def sample_fields_def opt_chain_def
        read_prop_def get_prop_def)

section \<open>The two connections\<close>

text \<open>
  C1 (as it holds of the code). Whenever the constructor returns, the objects it created
  after \<open>super\<close> contain exactly two instances of \<open>GoogleVertexAILLMConnection\<close>,
  stored in \<open>this.connection\<close> and \<open>this.streamedConnection\<close>. Both were built with
  the same caller and the same client, with the flag \<open>false\<close> for the first and \<open>true\<close>
  for the second. Their first arguments agree except in one property: the object literal
  of the streamed connection is evaluated after \<open>this.connection\<close> has been assigned, so
  it is the object literal of the first connection with the property \<open>connection\<close> set
  to the connection just built.
\<close>

theorem connections_differ_in_flag_and_connection_property:
  assumes "GoogleVertexAI_constructor D flds h = Inr (this', h')"
    and "super_ctor D flds h = Inr (this0, h1)"
    and "distinct (map fst this0)"
  shows "\<exists>F caller client c s.
           F = spread (spread_opt [] flds) this0 \<and>
           caller = get_prop this0 ''caller'' \<and>
           client = JRef (length h1) \<and>
           c = Instance ''GoogleVertexAILLMConnection'' [JObj F, caller, client, JBool False] \<and>
           s = Instance ''GoogleVertexAILLMConnection''
                 [JObj (AList.update ''connection'' (get_prop this' ''connection'') F),
                  caller, client, JBool True] \<and>
           deref h' (get_prop this' ''connection'') = Some c \<and>
           deref h' (get_prop this' ''streamedConnection'') = Some s \<and>
           filter (\<lambda>x. class_name x = ''GoogleVertexAILLMConnection'') (created h1 h') = [c, s]"
proof -
  note shape = constructor_returns [OF assms(1,2)]
  have conn: "get_prop this' ''connection'' = JRef (length h1 + 1)"
    and sconn: "get_prop this' ''streamedConnection'' = JRef (length h1 + 2)"
    by (simp_all add: shape(1))
  have lit: "spread (spread_opt [] flds) (set_prop this0 ''connection'' v)
               = AList.update ''connection'' v (spread (spread_opt [] flds) this0)" for v
    using assms(3) by (rule spread_set_prop)
  show ?thesis
    unfolding conn sconn
    by (simp add: shape(2) lit deref_def created_def nth_append)
qed

theorem connections_differ_in_flag_and_connection_property_witness:
  "filter (\<lambda>x. class_name x = ''GoogleVertexAILLMConnection'')
     (created [Instance ''AsyncCaller'' []]
        (snd (projr (GoogleVertexAI_constructor sample_collaborators (Some sample_fields) [])))) =
   [Instance ''GoogleVertexAILLMConnection''
      [JObj [(''model'', JStr ''text-bison''),
             (''authOptions'', JObj [(''credentials'', JStr ''service-account'')]),
             (''caller'', JRef 0)],
       JRef 0, JRef 1, JBool False],
    Instance ''GoogleVertexAILLMConnection''
      [JObj [(''model'', JStr ''text-bison''),
             (''authOptions'', JObj [(''credentials'', JStr ''service-account'')]),
             (''caller'', JRef 0), (''connection'', JRef 2)],
       JRef 0, JRef 1, JBool True]]"
proof -
  have d: "distinct (map fst [(''model'', JStr ''text-bison''), (''caller'', JRef 0)])"
    by simp
  have run: "snd (projr (GoogleVertexAI_constructor sample_collaborators
                            (Some sample_fields) [])) =
     [Instance ''AsyncCaller'' [],
      Instance ''WebGoogleAuth'' [JObj [(''credentials'', JStr ''service-account'')]],
      Instance ''GoogleVertexAILLMConnection''
        [JObj [(''model'', JStr ''text-bison''),
               (''authOptions'', JObj [(''credentials'', JStr ''service-account'')]),
               (''caller'', JRef 0)],
         JRef 0, JRef 1, JBool False],
      Instance ''GoogleVertexAILLMConnection''
        [JObj [(''model'', JStr ''text-bison''),
               (''authOptions'', JObj [(''credentials'', JStr ''service-account'')]),
               (''caller'', JRef 0), (''connection'', JRef 2)],
         JRef 0, JRef 1, JBool True]]"
    by (simp add: sample_run_fields)
  from connections_differ_in_flag_and_connection_property
         [OF sample_run_fields sample_super_fields d]
  show ?thesis
    unfolding run by (simp add: sample_fields_def spread_opt_def get_prop_def)
qed

text \<open>
  C1 as it was stated asks for more: that the two connections are built from the same
  arguments up to the flag. In the run with \<open>fields\<close> omitted the two argument lists
  differ in their first component as well: the object passed to the streamed connection
  has the property \<open>connection\<close>, the one passed to the first connection has not.
\<close>

theorem connections_same_but_flag_counterexample:
  "GoogleVertexAI_constructor sample_collaborators None [] =
     Inr ([(''model'', JStr ''default-model''), (''caller'', JRef 0),
           (''connection'', JRef 2), (''streamedConnection'', JRef 3)],
          [Instance ''AsyncCaller'' [],
           Instance ''WebGoogleAuth'' [JUndefined],
           Instance ''GoogleVertexAILLMConnection''
             [JObj [(''model'', JStr ''default-model''), (''caller'', JRef 0)],
              JRef 0, JRef 1, JBool False],
           Instance ''GoogleVertexAILLMConnection''
             [JObj [(''model'', JStr ''default-model''), (''caller'', JRef 0),
                    (''connection'', JRef 2)],
              JRef 0, JRef 1, JBool True]])
   \<and> \<not> same_but_last_arg
         (Instance ''GoogleVertexAILLMConnection''
             [JObj [(''model'', JStr ''default-model''), (''caller'', JRef 0)],
              JRef 0, JRef 1, JBool False])
         (Instance ''GoogleVertexAILLMConnection''
             [JObj [(''model'', JStr ''default-model''), (''caller'', JRef 0),
                    (''connection'', JRef 2)],
              JRef 0, JRef 1, JBool True])"
  by (simp add: sample_run_None same_but_last_arg_def)

section \<open>The shared authentication client\<close>







section \<open>The constants of the class\<close>

text \<open>
  C9. For every instance, \<open>lc_secrets\<close> is the mapping with the single entry
  \<open>"authOptions.credentials"\<close> to \<open>"GOOGLE_VERTEX_AI_WEB_CREDENTIALS"\<close>, and the static
  \<open>lc_name()\<close> is \<open>"VertexAI"\<close>; neither depends on the instance or on the fields it
  was constructed from.
\<close>

theorem lc_secrets_and_lc_name_constant:
  "lc_secrets this = [(''authOptions.credentials'', ''GOOGLE_VERTEX_AI_WEB_CREDENTIALS'')]
   \<and> map_of (lc_secrets this) =
       [''authOptions.credentials'' \<mapsto> ''GOOGLE_VERTEX_AI_WEB_CREDENTIALS'']
   \<and> length (lc_secrets this) = 1
   \<and> lc_secrets this = lc_secrets this'
   \<and> lc_name = ''VertexAI''"
  by (simp add: lc_secrets_def lc_name_def)

section \<open>Construction without fields\<close>

text \<open>
  C10 as it was stated lets every construction without \<open>fields\<close> succeed. The
  constructor hands \<open>undefined\<close> to \<open>new WebGoogleAuth\<close>, and when that constructor
  throws, as it does where no credentials are to be found, so does the construction.
\<close>

theorem construction_without_fields_counterexample:
  "GoogleVertexAI_constructor no_credentials_collaborators None [] =
     Inl (JStr ''Credentials not found'')"
  by (simp add: GoogleVertexAI_constructor_def no_credentials_collaborators_def
        no_credentials_throws_def sample_super_def new_instance_def opt_chain_def)

text \<open>
  C10 (as it holds of the code). With \<open>fields\<close> omitted or \<open>undefined\<close> the
  constructor has no failure of its own: \<open>fields?.authOptions\<close> is \<open>undefined\<close> and
  the spread of \<open>undefined\<close> copies nothing. It calls \<open>super\<close>, then
  \<open>new WebGoogleAuth(undefined)\<close>, then builds the first connection from a copy of the
  own properties that the base constructor gave the instance (its defaults) and the
  streamed connection from those properties together with \<open>connection\<close>. The
  construction throws exactly when one of these four calls throws, with the exception of
  the first that does, and returns otherwise.
\<close>

theorem construction_without_fields:
  "(\<forall>e. super_ctor D None h = Inl e \<longrightarrow> GoogleVertexAI_constructor D None h = Inl e)
   \<and> (\<forall>this0 h1. super_ctor D None h = Inr (this0, h1) \<and> distinct (map fst this0) \<longrightarrow>
        GoogleVertexAI_constructor D None h =
          (case ctor_throws D ''WebGoogleAuth'' [JUndefined] of
             Some e \<Rightarrow> Inl e
           | None \<Rightarrow>
          (case ctor_throws D ''GoogleVertexAILLMConnection''
                  [JObj this0, get_prop this0 ''caller'', JRef (length h1), JBool False] of
             Some e \<Rightarrow> Inl e
           | None \<Rightarrow>
          (case ctor_throws D ''GoogleVertexAILLMConnection''
                  [JObj (set_prop this0 ''connection'' (JRef (length h1 + 1))),
                   get_prop this0 ''caller'', JRef (length h1), JBool True] of
             Some e \<Rightarrow> Inl e
           | None \<Rightarrow>
               Inr (set_prop (set_prop this0 ''connection'' (JRef (length h1 + 1)))
                      ''streamedConnection'' (JRef (length h1 + 2)),
                    h1 @
                    [Instance ''WebGoogleAuth'' [JUndefined],
                     Instance ''GoogleVertexAILLMConnection''
                       [JObj this0, get_prop this0 ''caller'', JRef (length h1),
                        JBool False],
                     Instance ''GoogleVertexAILLMConnection''
                       [JObj (set_prop this0 ''connection'' (JRef (length h1 + 1))),
                        get_prop this0 ''caller'', JRef (length h1), JBool True]])))))"
proof (intro conjI allI impI)
  fix e
  assume "super_ctor D None h = Inl e"
  then show "GoogleVertexAI_constructor D None h = Inl e"
    by (simp add: GoogleVertexAI_constructor_def)
next
  fix this0 h1
  assume a: "super_ctor D None h = Inr (this0, h1) \<and> distinct (map fst this0)"
  then have d: "distinct (map fst this0)" by simp
  have copy0: "spread (spread_opt [] None) this0 = this0"
    using d by (simp add: spread_opt_def spread_empty_copy)
  have "distinct (map fst (set_prop this0 ''connection'' v))" for v
    using d by (simp add: set_prop_def AList.distinct_update)
  then have copy1: "spread (spread_opt [] None) (set_prop this0 ''connection'' v)
                      = set_prop this0 ''connection'' v" for v
    by (simp add: spread_opt_def spread_empty_copy)
  have undef: "opt_chain None ''authOptions'' = JUndefined"
    by (simp add: opt_chain_def)
  from a show "GoogleVertexAI_constructor D None h =
          (case ctor_throws D ''WebGoogleAuth'' [JUndefined] of
             Some e \<Rightarrow> Inl e
           | None \<Rightarrow>
          (case ctor_throws D ''GoogleVertexAILLMConnection''
                  [JObj this0, get_prop this0 ''caller'', JRef (length h1), JBool False] of
             Some e \<Rightarrow> Inl e
           | None \<Rightarrow>
          (case ctor_throws D ''GoogleVertexAILLMConnection''
                  [JObj (set_prop this0 ''connection'' (JRef (length h1 + 1))),
                   get_prop this0 ''caller'', JRef (length h1), JBool True] of
             Some e \<Rightarrow> Inl e
           | None \<Rightarrow>
               Inr (set_prop (set_prop this0 ''connection'' (JRef (length h1 + 1)))
                      ''streamedConnection'' (JRef (length h1 + 2)),
                    h1 @
                    [Instance ''WebGoogleAuth'' [JUndefined],
                     Instance ''GoogleVertexAILLMConnection''
                       [JObj this0, get_prop this0 ''caller'', JRef (length h1),
                        JBool False],
                     Instance ''GoogleVertexAILLMConnection''
                       [JObj (set_prop this0 ''connection'' (JRef (length h1 + 1))),
                        get_prop this0 ''caller'', JRef (length h1), JBool True]]))))"
    by (simp add: GoogleVertexAI_constructor_def new_instance_def Let_def
          copy0 copy1 undef split: option.splits)
qed

theorem construction_without_fields_witness:
  "GoogleVertexAI_constructor sample_collaborators None [] =
     Inr ([(''model'', JStr ''default-model''), (''caller'', JRef 0),
           (''connection'', JRef 2), (''streamedConnection'', JRef 3)],
          [Instance ''AsyncCaller'' [],
           Instance ''WebGoogleAuth'' [JUndefined],
           Instance ''GoogleVertexAILLMConnection''
             [JObj [(''model'', JStr ''default-model''), (''caller'', JRef 0)],
              JRef 0, JRef 1, JBool False],
           Instance ''GoogleVertexAILLMConnection''
             [JObj [(''model'', JStr ''default-model''), (''caller'', JRef 0),
                    (''connection'', JRef 2)],
              JRef 0, JRef 1, JBool True]])
   \<and> GoogleVertexAI_constructor no_credentials_collaborators None
       [Instance ''AsyncCaller'' []] =
     Inl (JStr ''Credentials not found'')"
proof -
  have d: "distinct (map fst [(''model'', JStr ''default-model''), (''caller'', JRef 0)])"
    by simp
  have t: "ctor_throws sample_collaborators C args = None" for C args
    by (simp add: sample_collaborators_def)
  from construction_without_fields [of sample_collaborators "[]"] sample_super_None d
  have ok: "GoogleVertexAI_constructor sample_collaborators None [] =
     Inr ([(''model'', JStr ''default-model''), (''caller'', JRef 0),
           (''connection'', JRef 2), (''streamedConnection'', JRef 3)],
          [Instance ''AsyncCaller'' [],
           Instance ''WebGoogleAuth'' [JUndefined],
           Instance ''GoogleVertexAILLMConnection''
             [JObj [(''model'', JStr ''default-model''), (''caller'', JRef 0)],
              JRef 0, JRef 1, JBool False],
           Instance ''GoogleVertexAILLMConnection''
             [JObj [(''model'', JStr ''default-model''), (''caller'', JRef 0),
                    (''connection'', JRef 2)],
              JRef 0, JRef 1, JBool True]])"
    by (simp add: t set_prop_def get_prop_def)
  have sup: "super_ctor no_credentials_collaborators None [Instance ''AsyncCaller'' []] =
     Inr ([(''model'', JStr ''default-model''), (''caller'', JRef 1)],
          [Instance ''AsyncCaller'' [], Instance ''AsyncCaller'' []])"
    by (simp add: no_credentials_collaborators_def sample_super_def opt_chain_def)
  have thr: "ctor_throws no_credentials_collaborators ''WebGoogleAuth'' [JUndefined] =
     Some (JStr ''Credentials not found'')"
    by (simp add: no_credentials_collaborators_def no_credentials_throws_def)
  from construction_without_fields
         [of no_credentials_collaborators "[Instance ''AsyncCaller'' []]"] sup
  have bad: "GoogleVertexAI_constructor no_credentials_collaborators None
       [Instance ''AsyncCaller'' []] = Inl (JStr ''Credentials not found'')"
    by (simp add: thr)
  from ok bad show ?thesis by simp
qed

section \<open>Failures of send\<close>

lemma and_then_Inl [simp]: "and_then (Inl e) f = Inl e"
  by (simp add: and_then_def)

lemma and_then_Inr [simp]: "and_then (Inr x) f = f x"
  by (simp add: and_then_def)

text \<open>
  C3. On a request that names a supported model, \<open>send\<close> fails with
  \<open>AuthenticationError\<close> when the acquisition of the credentials fails, with
  \<open>TransportError\<close> when the network call fails or times out, and with
  \<open>ResponseParseError\<close> when the body of a successful reply does not match the expected
  schema. The error of the step that failed is the result of \<open>send\<close> as it is: no
  later step runs and nothing replaces the error by a response or by another error.
\<close>

theorem send_fails_with_the_error_of_its_cause:
  assumes "model req \<in> set (supported_models C)"
  shows "(getToken C = None \<longrightarrow> send C req = Inl AuthenticationError)
       \<and> (\<forall>cred. getToken C = Some cred
             \<and> transport C (build_request C cred req) \<in> {NetworkFailure, Timeout}
             \<longrightarrow> send C req = Inl TransportError)
       \<and> (\<forall>cred status body. getToken C = Some cred
             \<and> transport C (build_request C cred req) = HttpReply status body
             \<and> 200 \<le> status \<and> status < 300
             \<and> expected_schema C body = None
             \<longrightarrow> send C req = Inl ResponseParseError)
       \<and> (\<forall>e. acquire C = Inl e \<longrightarrow> send C req = Inl e)
       \<and> (\<forall>cred e. acquire C = Inr cred
             \<and> call_endpoint C (build_request C cred req) = Inl e
             \<longrightarrow> send C req = Inl e)
       \<and> (\<forall>cred body e. acquire C = Inr cred
             \<and> call_endpoint C (build_request C cred req) = Inr body
             \<and> parse_response C body = Inl e
             \<longrightarrow> send C req = Inl e)"
proof -
  have chk: "check_model C req = Inr ()"
    using assms by (simp add: check_model_def)
  have s: "send C req =
             and_then (acquire C) (\<lambda>cred.
             and_then (call_endpoint C (build_request C cred req)) (parse_response C))"
    by (simp add: send_def chk)
  have auth: "getToken C = None \<longrightarrow> send C req = Inl AuthenticationError"
    by (simp add: s acquire_def)
  have net: "\<forall>cred. getToken C = Some cred
             \<and> transport C (build_request C cred req) \<in> {NetworkFailure, Timeout}
             \<longrightarrow> send C req = Inl TransportError"
    by (auto simp: s acquire_def call_endpoint_def)
  have prs: "\<forall>cred status body. getToken C = Some cred
             \<and> transport C (build_request C cred req) = HttpReply status body
             \<and> 200 \<le> status \<and> status < 300
             \<and> expected_schema C body = None
             \<longrightarrow> send C req = Inl ResponseParseError"
    by (auto simp: s acquire_def call_endpoint_def parse_response_def)
  have p1: "\<forall>e. acquire C = Inl e \<longrightarrow> send C req = Inl e"
    by (simp add: s)
  have p2: "\<forall>cred e. acquire C = Inr cred
             \<and> call_endpoint C (build_request C cred req) = Inl e
             \<longrightarrow> send C req = Inl e"
    by (simp add: s)
  have p3: "\<forall>cred body e. acquire C = Inr cred
             \<and> call_endpoint C (build_request C cred req) = Inr body
             \<and> parse_response C body = Inl e
             \<longrightarrow> send C req = Inl e"
    by (simp add: s)
  from auth net prs p1 p2 p3 show ?thesis by blast
qed

lemma mock_supported:
  "model (mock_request ''test-model'') \<in> set (supported_models (mock_connection tok))"
  "model (mock_request ''down-model'') \<in> set (supported_models (mock_connection tok))"
  "model (mock_request ''slow-model'') \<in> set (supported_models (mock_connection tok))"
  "model (mock_request ''odd-model'') \<in> set (supported_models (mock_connection tok))"
  by (simp_all add: mock_request_def mock_connection_def)

theorem send_fails_with_the_error_of_its_cause_witness:
  "send (mock_connection None) (mock_request ''test-model'') = Inl AuthenticationError
   \<and> send (mock_connection (Some ''token'')) (mock_request ''down-model'') = Inl TransportError
   \<and> send (mock_connection (Some ''token'')) (mock_request ''slow-model'') = Inl TransportError
   \<and> send (mock_connection (Some ''token'')) (mock_request ''odd-model'') = Inl ResponseParseError"
proof -
  have tok: "getToken (mock_connection t) = t" for t
    by (simp add: mock_connection_def)
  have tr: "transport (mock_connection t) (build_request (mock_connection t) c (mock_request m))
              = mock_transport (build_request (mock_connection t) c (mock_request m))" for t c m
    by (simp add: mock_connection_def)
  have bm: "body_model (build_request (mock_connection t) c (mock_request m)) = m" for t c m
    by (simp add: build_request_def mock_request_def)
  have sch: "expected_schema (mock_connection t) ''<html>'' = None" for t
    by (simp add: mock_connection_def mock_schema_def)
  from send_fails_with_the_error_of_its_cause [OF mock_supported(1), of None]
  have a: "send (mock_connection None) (mock_request ''test-model'') = Inl AuthenticationError"
    by (simp add: tok)
  from send_fails_with_the_error_of_its_cause [OF mock_supported(2), of "Some ''token''"]
  have b: "send (mock_connection (Some ''token'')) (mock_request ''down-model'') = Inl TransportError"
    by (simp add: tok tr bm mock_transport_def)
  from send_fails_with_the_error_of_its_cause [OF mock_supported(3), of "Some ''token''"]
  have c: "send (mock_connection (Some ''token'')) (mock_request ''slow-model'') = Inl TransportError"
    by (simp add: tok tr bm mock_transport_def)
  from send_fails_with_the_error_of_its_cause [OF mock_supported(4), of "Some ''token''"]
  have d: "send (mock_connection (Some ''token'')) (mock_request ''odd-model'') = Inl ResponseParseError"
    by (simp add: tok tr bm sch mock_transport_def)
  from a b c d show ?thesis by simp
qed

end
